theory Spec2Isabelle
  imports Complex_Main "HOL-Library.Sublist"
begin

section \<open>Data model\<close>

text \<open>
  A legend item as declared by the \<^verbatim>\<open>LegendItem\<close> interface. The field \<^verbatim>\<open>id\<close> is
  called \<open>item_id\<close> here (\<open>id\<close> is the identity function of HOL); the \<^verbatim>\<open>marker\<close>
  is a rendered node that no handler reads and is left out.
\<close>

record LegendItem =
  item_id :: string
  name :: string
  visible :: bool
  highlighted :: bool
  oppositeAxis :: bool

text \<open>The three callbacks of \<^verbatim>\<open>ChartLegendProps\<close> through which the legend informs its host.\<close>

datatype host_event =
    onItemHighlightEnter LegendItem
  | onItemHighlightExit
  | onItemVisibilityChange "string list"

section \<open>Visibility toggling (ChartLegend)\<close>

text \<open>
  \<^verbatim>\<open>onToggleItem\<close> and \<^verbatim>\<open>onSelectItem\<close> of chart-legend/index.tsx. Each returns the host
  callbacks it invokes, in order.
\<close>

definition onToggleItem :: "LegendItem list \<Rightarrow> string \<Rightarrow> host_event list" where
  "onToggleItem items itemId =
     (let visibleItems = map item_id (filter visible items) in
      (if itemId \<in> set visibleItems
       then [onItemVisibilityChange (filter (\<lambda>visibleItemId. visibleItemId \<noteq> itemId) visibleItems)]
       else [onItemVisibilityChange (visibleItems @ [itemId])])
      @ [onItemHighlightExit])"

definition onSelectItem :: "LegendItem list \<Rightarrow> string \<Rightarrow> host_event list" where
  "onSelectItem items itemId =
     (let visibleItems = map item_id (filter visible items) in
      (if length visibleItems = 1 \<and> visibleItems ! 0 = itemId
       then [onItemVisibilityChange (map item_id items)]
       else [onItemVisibilityChange [itemId]])
      @ [onItemHighlightExit])"

text \<open>
  \<^verbatim>\<open>toggleItem\<close> and \<^verbatim>\<open>selectItem\<close> of the single-list legend variant; the bodies are the
  same statements as above.
\<close>

definition toggleItem :: "LegendItem list \<Rightarrow> string \<Rightarrow> host_event list" where
  "toggleItem items itemId =
     (let visibleItems = map item_id (filter visible items) in
      (if itemId \<in> set visibleItems
       then [onItemVisibilityChange (filter (\<lambda>visibleItemId. visibleItemId \<noteq> itemId) visibleItems)]
       else [onItemVisibilityChange (visibleItems @ [itemId])])
      @ [onItemHighlightExit])"

definition selectItem :: "LegendItem list \<Rightarrow> string \<Rightarrow> host_event list" where
  "selectItem items itemId =
     (let visibleItems = map item_id (filter visible items) in
      (if length visibleItems = 1 \<and> visibleItems ! 0 = itemId
       then [onItemVisibilityChange (map item_id items)]
       else [onItemVisibilityChange [itemId]])
      @ [onItemHighlightExit])"

text \<open>
  The words of the specification: an item is the sole visible item when it is visible and
  no other item of the list is.
\<close>

definition sole_visible :: "LegendItem list \<Rightarrow> LegendItem \<Rightarrow> bool" where
  "sole_visible items x \<longleftrightarrow>
     x \<in> set items \<and> visible x \<and> (\<forall>y \<in> set items. visible y \<longrightarrow> y = x)"

text \<open>
  The words of the specification for toggling: the current visible-id list, and that list
  minus the toggled item when it is visible, plus it when it is not.
\<close>

definition visible_ids :: "LegendItem list \<Rightarrow> string list" where
  "visible_ids items = map item_id (filter visible items)"

definition toggled_ids :: "LegendItem list \<Rightarrow> LegendItem \<Rightarrow> string list" where
  "toggled_ids items x =
     (if visible x then removeAll (item_id x) (visible_ids items)
      else visible_ids items @ [item_id x])"

text \<open>The item list of the specification's scenario, and the list after "b" was selected.\<close>

definition mk_item :: "string \<Rightarrow> bool \<Rightarrow> LegendItem" where
  "mk_item i v = \<lparr>item_id = i, name = i, visible = v, highlighted = False, oppositeAxis = False\<rparr>"

definition scenario_items :: "LegendItem list" where
  "scenario_items = [mk_item ''a'' True, mk_item ''b'' True, mk_item ''c'' False]"

definition scenario_items_b :: "LegendItem list" where
  "scenario_items_b = [mk_item ''a'' False, mk_item ''b'' True, mk_item ''c'' False]"

section \<open>DebouncedCall\<close>

text \<open>
  Modelled from the spec: the class \<^verbatim>\<open>DebouncedCall\<close> is imported from utils/utils, which is
  not among the sources. Section 3 of the specification gives its state: at most one pending
  scheduled action and an optional "lock until" timestamp. The pending action is kept with
  the time at which its timer is due. Times are in milliseconds.
\<close>

record 'a DebouncedCall =
  pending :: "(nat \<times> 'a) option"
  lockedUntil :: "nat option"

text \<open>Modelled from the spec: a newly created instance has nothing pending and no lock.\<close>

definition newDebouncedCall :: "'a DebouncedCall" where
  "newDebouncedCall = \<lparr>pending = None, lockedUntil = None\<rparr>"

text \<open>
  Modelled from the spec: "\<^verbatim>\<open>lock(ms)\<close> marks the instance as locked until \<^verbatim>\<open>now+ms\<close>"; the
  instance is locked at the times before that timestamp.
\<close>

definition isLocked :: "nat \<Rightarrow> 'a DebouncedCall \<Rightarrow> bool" where
  "isLocked now dc = (case lockedUntil dc of None \<Rightarrow> False | Some t \<Rightarrow> now < t)"

text \<open>
  Modelled from the spec: "\<^verbatim>\<open>cancelPrevious()\<close> cancels a pending action with no
  replacement".
\<close>

definition cancelPrevious :: "'a DebouncedCall \<Rightarrow> 'a DebouncedCall" where
  "cancelPrevious dc = dc\<lparr>pending := None\<rparr>"

text \<open>
  Modelled from the spec: "\<^verbatim>\<open>call(action, delayMs=0)\<close> schedules \<^verbatim>\<open>action\<close> to run after
  \<^verbatim>\<open>delayMs\<close>, canceling any previously scheduled-but-not-yet-fired action from the same
  instance", and "any \<^verbatim>\<open>call\<close> issued while locked is dropped entirely (neither scheduled
  nor fired)". The first argument is the time of the call.
\<close>

definition call :: "nat \<Rightarrow> 'a \<Rightarrow> nat \<Rightarrow> 'a DebouncedCall \<Rightarrow> 'a DebouncedCall" where
  "call now action delayMs dc =
     (if isLocked now dc then dc
      else (cancelPrevious dc)\<lparr>pending := Some (now + delayMs, action)\<rparr>)"

text \<open>Modelled from the spec: the default value of the parameter \<^verbatim>\<open>delayMs\<close> of \<^verbatim>\<open>call\<close>.\<close>

definition default_delayMs :: nat where
  "default_delayMs = 0"

text \<open>Modelled from the spec: \<^verbatim>\<open>lock(ms)\<close>, invoked at the time given first.\<close>

definition lock :: "nat \<Rightarrow> nat \<Rightarrow> 'a DebouncedCall \<Rightarrow> 'a DebouncedCall" where
  "lock now ms dc = dc\<lparr>lockedUntil := Some (now + ms)\<rparr>"

text \<open>
  Modelled from the spec: the timer of the pending action. When the clock has reached the
  time at which the action is due, the action runs and nothing is pending any more. The result
  is the action that ran, if any, and the instance afterwards.
\<close>

definition timer_fires :: "nat \<Rightarrow> 'a DebouncedCall \<Rightarrow> 'a option \<times> 'a DebouncedCall" where
  "timer_fires now dc =
     (case pending dc of
        None \<Rightarrow> (None, dc)
      | Some (due, action) \<Rightarrow>
          if due \<le> now then (Some action, dc\<lparr>pending := None\<rparr>) else (None, dc))"

subsection \<open>One instance on a clock\<close>

text \<open>
  Modelled from the spec: section 9 asks for the timer-owning component to be "independently
  testable with a fake clock". A timeline is one instance together with the clock and the
  log of the actions that have run, oldest first; its operations are the three methods and
  the passing of time.
\<close>

datatype 'a timer_op = Call 'a nat | CancelPrevious | Lock nat | Elapse nat

text \<open>
  Modelled from the spec: the state of the fake clock, the instance under test and the log
  of the actions that have run.
\<close>

record 'a timeline =
  clock :: nat
  debounced :: "'a DebouncedCall"
  executed :: "'a list"

text \<open>
  Modelled from the spec: one operation on the timeline. A method is invoked at the current
  time of the clock; when time passes, the clock advances and the timer may fire, in which
  case the action that ran is appended to the log.
\<close>

fun timeline_step :: "'a timer_op \<Rightarrow> 'a timeline \<Rightarrow> 'a timeline" where
  "timeline_step (Call action delayMs) s =
     s\<lparr>debounced := call (clock s) action delayMs (debounced s)\<rparr>"
| "timeline_step CancelPrevious s = s\<lparr>debounced := cancelPrevious (debounced s)\<rparr>"
| "timeline_step (Lock ms) s = s\<lparr>debounced := lock (clock s) ms (debounced s)\<rparr>"
| "timeline_step (Elapse n) s =
     (case timer_fires (clock s + n) (debounced s) of
        (None, dc) \<Rightarrow> s\<lparr>clock := clock s + n, debounced := dc\<rparr>
      | (Some action, dc) \<Rightarrow>
          s\<lparr>clock := clock s + n, debounced := dc, executed := executed s @ [action]\<rparr>)"

text \<open>Modelled from the spec: a sequence of operations, in order.\<close>

fun timeline_run :: "'a timer_op list \<Rightarrow> 'a timeline \<Rightarrow> 'a timeline" where
  "timeline_run [] s = s"
| "timeline_run (e # es) s = timeline_run es (timeline_step e s)"




text \<open>Modelled from the spec: a new instance at time 0, before any action has run.\<close>

definition new_timeline :: "'a timeline" where
  "new_timeline = \<lparr>clock = 0, debounced = newDebouncedCall, executed = []\<rparr>"

section \<open>Elements and registries\<close>

text \<open>
  The DOM elements the handlers touch. \<open>ItemButton index itemId\<close> is the button that
  \<^verbatim>\<open>LegendItemTrigger\<close> renders for the item at \<open>index\<close> of its list (\<^verbatim>\<open>key={index}\<close>,
  \<^verbatim>\<open>data-itemid={itemId}\<close>); every other element is known by its identity only. A subtree
  of the document is a tree of elements, and \<^verbatim>\<open>node.contains(other)\<close> holds when \<open>other\<close>
  is the node itself or one of its descendants.
\<close>

datatype element = ItemButton nat string | OtherElement nat

datatype dom_tree = Dom element "dom_tree list"

fun elements_of :: "dom_tree \<Rightarrow> element list" where
  "elements_of (Dom e children) = e # concat (map elements_of children)"

definition contains :: "dom_tree \<Rightarrow> element \<Rightarrow> bool" where
  "contains node other \<longleftrightarrow> other \<in> set (elements_of node)"

text \<open>
  The two registries, \<^verbatim>\<open>elementsByIndexRef\<close> and \<^verbatim>\<open>elementsByIdRef\<close>, and the ref callback
  \<^verbatim>\<open>thisTriggerRef\<close> of the item at \<open>index\<close>: it stores the element when the button is
  mounted and deletes both entries when React passes \<^verbatim>\<open>null\<close>.
\<close>

type_synonym registries = "(int \<rightharpoonup> element) \<times> (string \<rightharpoonup> element)"

definition thisTriggerRef :: "nat \<Rightarrow> LegendItem \<Rightarrow> element option \<Rightarrow> registries \<Rightarrow> registries" where
  "thisTriggerRef index item elem regs =
     (case elem of
        Some e \<Rightarrow> ((fst regs)(int index \<mapsto> e), (snd regs)(item_id item \<mapsto> e))
      | None \<Rightarrow> ((fst regs)(int index := None), (snd regs)(item_id item := None)))"

text \<open>
  Rendering a list of items: \<^verbatim>\<open>items.map((item, index) => ...)\<close> yields one button per
  item, in order, and mounting them runs each ref callback with its button.
\<close>

definition renderedItems :: "LegendItem list \<Rightarrow> element list" where
  "renderedItems items = map (\<lambda>(index, item). ItemButton index (item_id item)) (enumerate 0 items)"

definition mountItems :: "LegendItem list \<Rightarrow> registries \<Rightarrow> registries" where
  "mountItems items regs =
     fold (\<lambda>(index, item). thisTriggerRef index item (Some (ItemButton index (item_id item))))
       (enumerate 0 items) regs"

section \<open>Keys\<close>

text \<open>
  Modelled from the spec: \<^verbatim>\<open>KeyCode\<close> comes from the component toolkit, which is not among
  the sources. Section 6: "Escape, Home, End, and the four arrow directions are the only keys
  intercepted; all other keys pass through untouched".
\<close>

datatype KeyCode =
  KeyRight | KeyLeft | KeyUp | KeyDown | KeyHome | KeyEnd | KeyEscape | KeyOther nat

text \<open>
  What a handler of the legend group does, as the calls it makes in order: on the event, on
  an element, on the navigation API, on the shared highlight control, or on a callback
  received from the root.
\<close>

datatype effect =
    PreventDefault
  | Focus element
  | UpdateFocusTarget
  | SetSelectedIndex int
  | HighlightControlCall host_event nat
  | OnHideTooltip bool
  | OnShowTooltip string
  | OnShowHighlight string
  | Notify host_event

text \<open>
  Modelled from the spec: \<^verbatim>\<open>handleKey\<close> comes from the component toolkit. Section 4.3:
  "arrow-left/up and arrow-right/down move the focus index by -1/+1 ...; home/end jump to
  first/last. Escape clears highlight". With the handlers that \<^verbatim>\<open>onKeyDown\<close> passes, this is
  the dispatch of left to \<^verbatim>\<open>onInlineStart\<close>, right to \<^verbatim>\<open>onInlineEnd\<close>, up to
  \<^verbatim>\<open>onBlockStart\<close>, down to \<^verbatim>\<open>onBlockEnd\<close>, and of home, end and escape to the handlers of
  their names. Only the selected handler runs.
\<close>

text \<open>
  Modelled from the spec: the handlers that \<^verbatim>\<open>onKeyDown\<close> passes to \<^verbatim>\<open>handleKey\<close>, each
  given by the calls it would make.
\<close>

record KeyHandlers =
  onInlineStart :: "effect list"
  onInlineEnd :: "effect list"
  onBlockStart :: "effect list"
  onBlockEnd :: "effect list"
  onHome :: "effect list"
  onEnd :: "effect list"
  onEscape :: "effect list"

text \<open>
  Modelled from the spec: \<^verbatim>\<open>handleKey\<close> itself, as described above; a key without a
  handler does nothing.
\<close>

fun handleKey :: "KeyCode \<Rightarrow> KeyHandlers \<Rightarrow> effect list" where
  "handleKey KeyLeft h = onInlineStart h"
| "handleKey KeyRight h = onInlineEnd h"
| "handleKey KeyUp h = onBlockStart h"
| "handleKey KeyDown h = onBlockEnd h"
| "handleKey KeyHome h = onHome h"
| "handleKey KeyEnd h = onEnd h"
| "handleKey KeyEscape h = onEscape h"
| "handleKey (KeyOther _) h = []"

text \<open>
  Modelled from the spec: \<^verbatim>\<open>circleIndex\<close> comes from the component toolkit. Section 4.3
  calls it "circular indexing over \<^verbatim>\<open>[0, length-1]\<close>", and section 8 says what that is:
  stepping past the last index gives the first one, "and vice versa for the reverse
  direction".
\<close>

fun circleIndex :: "int \<Rightarrow> int \<times> int \<Rightarrow> int" where
  "circleIndex index (from, to) =
     (if index < from then to else if index > to then from else index)"

section \<open>Legend group\<close>

text \<open>The delays declared at the top of both legend files, in milliseconds.\<close>

definition TOOLTIP_BLUR_DELAY :: nat where
  "TOOLTIP_BLUR_DELAY = 50"

definition HIGHLIGHT_LOST_DELAY :: nat where
  "HIGHLIGHT_LOST_DELAY = 50"

text \<open>
  \<^verbatim>\<open>focusElement\<close>: \<^verbatim>\<open>elementsByIndexRef.current[index]?.focus()\<close>; nothing happens when no
  element is registered at the index.
\<close>

definition focusElement :: "(int \<rightharpoonup> element) \<Rightarrow> int \<Rightarrow> effect list" where
  "focusElement elementsByIndexRef index =
     (case elementsByIndexRef index of Some e \<Rightarrow> [Focus e] | None \<Rightarrow> [])"

text \<open>
  \<^verbatim>\<open>onKeyDown\<close>. Both legend files have this function with the same statements (the
  single-list variant reads \<^verbatim>\<open>filteredItems\<close> where the group reads \<^verbatim>\<open>items\<close>). The
  arguments are the displayed items, the state \<^verbatim>\<open>selectedIndex\<close>, the index registry and
  the key of the event.
\<close>

definition onKeyDown ::
  "LegendItem list \<Rightarrow> int \<Rightarrow> (int \<rightharpoonup> element) \<Rightarrow> KeyCode \<Rightarrow> effect list" where
  "onKeyDown items selectedIndex elementsByIndexRef keyCode =
     (if keyCode = KeyRight \<or> keyCode = KeyLeft \<or> keyCode = KeyUp \<or> keyCode = KeyDown
         \<or> keyCode = KeyHome \<or> keyCode = KeyEnd \<or> keyCode = KeyEscape
      then
        (let range = (0, int (length items) - 1) in
         PreventDefault #
         handleKey keyCode
           \<lparr>onInlineStart = focusElement elementsByIndexRef (circleIndex (selectedIndex - 1) range),
            onInlineEnd = focusElement elementsByIndexRef (circleIndex (selectedIndex + 1) range),
            onBlockStart = focusElement elementsByIndexRef (circleIndex (selectedIndex - 1) range),
            onBlockEnd = focusElement elementsByIndexRef (circleIndex (selectedIndex + 1) range),
            onHome = focusElement elementsByIndexRef 0,
            onEnd = focusElement elementsByIndexRef (int (length items) - 1),
            onEscape = [Notify onItemHighlightExit]\<rparr>)
      else [])"

text \<open>
  \<^verbatim>\<open>clearHighlight\<close> and \<^verbatim>\<open>onBlur\<close>, the same statements in both legend files. The
  arguments of \<^verbatim>\<open>onBlur\<close> are \<^verbatim>\<open>tooltipRef.current\<close> and \<^verbatim>\<open>event.relatedTarget\<close>, each of
  which may be \<^verbatim>\<open>null\<close>.
\<close>

definition clearHighlight :: "effect list" where
  "clearHighlight = [HighlightControlCall onItemHighlightExit HIGHLIGHT_LOST_DELAY]"

definition onBlur :: "dom_tree option \<Rightarrow> element option \<Rightarrow> effect list" where
  "onBlur tooltipRef_current relatedTarget =
     UpdateFocusTarget #
     (case tooltipRef_current of
        None \<Rightarrow> []
      | Some tooltip \<Rightarrow>
          (case relatedTarget of
             None \<Rightarrow> []
           | Some target \<Rightarrow>
               if \<not> contains tooltip target then clearHighlight @ [OnHideTooltip False] else []))"

text \<open>
  The ref that reaches \<^verbatim>\<open>onBlur\<close>: both legend files create it with
  \<^verbatim>\<open>useRef<HTMLElement>(null)\<close> and render no element with it (the tooltip gets
  \<^verbatim>\<open>trackRef\<close>, not this ref), so its \<^verbatim>\<open>current\<close> is \<^verbatim>\<open>null\<close> at every blur.
\<close>

definition ChartLegend_tooltipRef_current :: "dom_tree option" where
  "ChartLegend_tooltipRef_current = None"

subsection \<open>Focus target\<close>






section \<open>Tooltip of the chart legend\<close>

text \<open>
  The action that the tooltip control schedules, \<^verbatim>\<open>() => setTooltipItemId(...)\<close>, and the
  two functions built around the control. \<^verbatim>\<open>onShowTooltip\<close> and \<^verbatim>\<open>onHideTooltip\<close> are those
  of chart-legend/index.tsx; \<^verbatim>\<open>showTooltip\<close> and \<^verbatim>\<open>hideTooltip\<close> are those of the single-list
  variant, with the same statements. The first argument is the time of the call.
\<close>

datatype tooltip_action = setTooltipItemId "string option"

definition onShowTooltip ::
  "nat \<Rightarrow> string \<Rightarrow> tooltip_action DebouncedCall \<Rightarrow> tooltip_action DebouncedCall" where
  "onShowTooltip now itemId control = call now (setTooltipItemId (Some itemId)) default_delayMs control"

definition onHideTooltip ::
  "nat \<Rightarrow> bool \<Rightarrow> tooltip_action DebouncedCall \<Rightarrow> tooltip_action DebouncedCall" where
  "onHideTooltip now lck control =
     (let control1 = call now (setTooltipItemId None) TOOLTIP_BLUR_DELAY control in
      if lck then lock now TOOLTIP_BLUR_DELAY control1 else control1)"

definition showTooltip ::
  "nat \<Rightarrow> string \<Rightarrow> tooltip_action DebouncedCall \<Rightarrow> tooltip_action DebouncedCall" where
  "showTooltip now itemId control = call now (setTooltipItemId (Some itemId)) default_delayMs control"

definition hideTooltip ::
  "nat \<Rightarrow> bool \<Rightarrow> tooltip_action DebouncedCall \<Rightarrow> tooltip_action DebouncedCall" where
  "hideTooltip now lck control =
     (let control1 = call now (setTooltipItemId None) TOOLTIP_BLUR_DELAY control in
      if lck then lock now TOOLTIP_BLUR_DELAY control1 else control1)"

text \<open>
  The part of the state of \<^verbatim>\<open>ChartLegend\<close> that the tooltip needs: the clock, the state
  \<^verbatim>\<open>tooltipItemId\<close>, the tooltip control, the registry by id and the element that has the
  keyboard focus.
\<close>

record ChartLegendState =
  now :: nat
  tooltipItemId :: "string option"
  control :: "tooltip_action DebouncedCall"
  elementsByIdRef :: "string \<rightharpoonup> element"
  activeElement :: "element option"

text \<open>
  The effect that installs the document listener. \<^verbatim>\<open>if (!tooltipItemId) return\<close> leaves
  without a listener when the id is \<^verbatim>\<open>null\<close> or the empty string, both of which are falsy.
  Otherwise the listener is installed with the id of this render in its closure; the result
  is that id.
\<close>

definition installedListener :: "string option \<Rightarrow> string option" where
  "installedListener tooltipItemId_now =
     (case tooltipItemId_now of
        None \<Rightarrow> None
      | Some itemId \<Rightarrow> if itemId = [] then None else Some itemId)"

text \<open>
  \<^verbatim>\<open>onDocumentKeyDown\<close>, the listener, with the id of its closure as first argument. Both
  legend files have it with the same statements. \<^verbatim>\<open>elementsByIdRef.current[id]?.focus()\<close>
  moves the focus when an element is registered under the id.
\<close>

definition onDocumentKeyDown :: "string \<Rightarrow> KeyCode \<Rightarrow> ChartLegendState \<Rightarrow> ChartLegendState" where
  "onDocumentKeyDown tooltipItemId_closure keyCode s =
     (if keyCode = KeyEscape
      then
        (let s1 = s\<lparr>control := onHideTooltip (now s) True (control s)\<rparr> in
         case elementsByIdRef s1 tooltipItemId_closure of
           Some e \<Rightarrow> s1\<lparr>activeElement := Some e\<rparr>
         | None \<Rightarrow> s1)
      else s)"

text \<open>A key pressed anywhere in the document reaches the listener when one is installed.\<close>

definition document_keydown :: "KeyCode \<Rightarrow> ChartLegendState \<Rightarrow> ChartLegendState" where
  "document_keydown keyCode s =
     (case installedListener (tooltipItemId s) of
        None \<Rightarrow> s
      | Some itemId \<Rightarrow> onDocumentKeyDown itemId keyCode s)"







text \<open>
  What decides whether the tooltip is rendered. \<^verbatim>\<open>tooltipTarget\<close> is
  \<^verbatim>\<open>items.find((item) => item.id === tooltipItemId) ?? null\<close> (the single-list variant
  searches \<^verbatim>\<open>filteredItems\<close>), \<^verbatim>\<open>tooltipContent\<close> is
  \<^verbatim>\<open>tooltipTarget && getTooltipContent({ legendItem: tooltipTarget })\<close>, and the tooltip is
  rendered when the content is not \<^verbatim>\<open>null\<close>. \<^verbatim>\<open>tooltipTrack.current\<close> is the registered
  element when \<^verbatim>\<open>tooltipItemId\<close> is truthy and \<^verbatim>\<open>null\<close> otherwise.
\<close>

definition tooltipTarget :: "LegendItem list \<Rightarrow> string option \<Rightarrow> LegendItem option" where
  "tooltipTarget items tooltipItemId_now =
     find (\<lambda>item. Some (item_id item) = tooltipItemId_now) items"

definition tooltipContent ::
  "(LegendItem \<Rightarrow> 'c option) \<Rightarrow> LegendItem list \<Rightarrow> string option \<Rightarrow> 'c option" where
  "tooltipContent getTooltipContent items tooltipItemId_now =
     (case tooltipTarget items tooltipItemId_now of
        None \<Rightarrow> None
      | Some legendItem \<Rightarrow> getTooltipContent legendItem)"

definition tooltipTrack :: "string option \<Rightarrow> (string \<rightharpoonup> element) \<Rightarrow> element option" where
  "tooltipTrack tooltipItemId_now elementsById =
     (case tooltipItemId_now of
        None \<Rightarrow> None
      | Some itemId \<Rightarrow> if itemId = [] then None else elementsById itemId)"

text \<open>
  A legend at time 0 whose tooltip is shown for the item of the given id, with the button
  of that item registered and nothing scheduled.
\<close>

definition tooltip_shown :: "string \<Rightarrow> ChartLegendState" where
  "tooltip_shown itemId =
     \<lparr>now = 0, tooltipItemId = Some itemId, control = newDebouncedCall,
      elementsByIdRef = [itemId \<mapsto> ItemButton 0 itemId], activeElement = None\<rparr>"


section \<open>Layout of the grouped legend (chart-legend/index.tsx)\<close>

text \<open>
  The props \<^verbatim>\<open>type\<close> (\<^verbatim>\<open>"single" | "dual"\<close>) and \<^verbatim>\<open>position\<close> (\<^verbatim>\<open>"bottom" | "side"\<close>) of
  \<^verbatim>\<open>ChartLegend\<close>, and the \<^verbatim>\<open>position\<close> of a \<^verbatim>\<open>LegendGroup\<close>
  (\<^verbatim>\<open>"bottom" | "bottom-default" | "bottom-opposite" | "side"\<close>).
\<close>

datatype LegendAxes = TypeSingle | TypeDual

datatype ChartLegendPosition = PositionBottom | PositionSide

datatype LegendGroupPosition = GroupBottom | GroupBottomDefault | GroupBottomOpposite | GroupSide

text \<open>The split into \<^verbatim>\<open>defaultItems\<close> and \<^verbatim>\<open>oppositeItems\<close>.\<close>

definition partitionItems :: "LegendAxes \<Rightarrow> LegendItem list \<Rightarrow> LegendItem list \<times> LegendItem list" where
  "partitionItems axes items =
     (if axes = TypeSingle then (items, [])
      else (filter (\<lambda>item. \<not> oppositeAxis item) items, filter (\<lambda>item. oppositeAxis item) items))"

text \<open>
  The callback of the \<^verbatim>\<open>ResizeObserver\<close>. An entry is given by its
  \<^verbatim>\<open>borderBoxSize?.[0].inlineSize\<close>, which is \<^verbatim>\<open>undefined\<close> when the browser reports no
  border-box size; \<^verbatim>\<open>undefined < 400\<close> is false. The result is the new value of the state
  \<^verbatim>\<open>shouldStack\<close>, whose old value is the second argument.
\<close>

definition onResize :: "real option list \<Rightarrow> bool \<Rightarrow> bool" where
  "onResize entries shouldStack =
     (case entries of
        [] \<Rightarrow> shouldStack
      | width # _ \<Rightarrow> (case width of None \<Rightarrow> False | Some w \<Rightarrow> w < 400))"

text \<open>
  What the root renders: legend groups with the props that matter for the layout (whether
  \<^verbatim>\<open>scrollableContainerRef\<close> is passed is the last field), the divider between stacked
  groups, and the container \<^verbatim>\<open>legend-bottom-dual-axis-container\<close> that puts the two groups
  of a dual-axis legend side by side in a row.
\<close>

record LegendGroupProps =
  group_position :: LegendGroupPosition
  group_title :: "string option"
  group_items :: "LegendItem list"
  group_ariaLabel :: string
  group_scrollsRoot :: bool

datatype rendered =
    Group LegendGroupProps
  | DividerSide
  | BottomDualAxisContainer LegendGroupProps LegendGroupProps

definition sideGroups ::
  "string option \<Rightarrow> string option \<Rightarrow> LegendItem list \<Rightarrow> LegendItem list \<Rightarrow> rendered list" where
  "sideGroups title oppositeTitle defaultItems oppositeItems =
     Group \<lparr>group_position = GroupSide, group_title = title, group_items = defaultItems,
            group_ariaLabel = ''Default legend'', group_scrollsRoot = True\<rparr>
     # (if length oppositeItems > 0
        then [DividerSide,
              Group \<lparr>group_position = GroupSide, group_title = oppositeTitle,
                     group_items = oppositeItems, group_ariaLabel = ''Opposite legend'',
                     group_scrollsRoot = True\<rparr>]
        else [])"

text \<open>
  The children of the root element of \<^verbatim>\<open>ChartLegend\<close>, from \<^verbatim>\<open>position\<close>, the state
  \<^verbatim>\<open>shouldStack\<close>, the two titles and the two item lists. The stacked branch and the side
  branch of the source are the same elements, written once as \<open>sideGroups\<close>.
\<close>

definition ChartLegend_groups ::
  "ChartLegendPosition \<Rightarrow> bool \<Rightarrow> string option \<Rightarrow> string option \<Rightarrow>
   LegendItem list \<Rightarrow> LegendItem list \<Rightarrow> rendered list" where
  "ChartLegend_groups position shouldStack title oppositeTitle defaultItems oppositeItems =
     (if position = PositionBottom then
        (if length oppositeItems = 0 then
           [Group \<lparr>group_position = GroupBottom, group_title = title, group_items = defaultItems,
                   group_ariaLabel = ''Chart legend'', group_scrollsRoot = False\<rparr>]
         else if shouldStack then sideGroups title oppositeTitle defaultItems oppositeItems
         else
           [BottomDualAxisContainer
              \<lparr>group_position = GroupBottomDefault, group_title = title,
               group_items = defaultItems, group_ariaLabel = ''Primary legend'',
               group_scrollsRoot = False\<rparr>
              \<lparr>group_position = GroupBottomOpposite, group_title = oppositeTitle,
               group_items = oppositeItems, group_ariaLabel = ''Opposite legend'',
               group_scrollsRoot = False\<rparr>])
      else sideGroups title oppositeTitle defaultItems oppositeItems)"

text \<open>
  Reading a rendered layout: whether it is the side-by-side row, and the item lists of its
  groups in order.
\<close>

fun side_by_side :: "rendered list \<Rightarrow> bool" where
  "side_by_side [BottomDualAxisContainer _ _] = True"
| "side_by_side _ = False"

fun items_of_groups :: "rendered list \<Rightarrow> LegendItem list list" where
  "items_of_groups [] = []"
| "items_of_groups (Group g # rs) = group_items g # items_of_groups rs"
| "items_of_groups (DividerSide # rs) = items_of_groups rs"
| "items_of_groups (BottomDualAxisContainer g1 g2 # rs) =
     group_items g1 # group_items g2 # items_of_groups rs"

fun positions_of_groups :: "rendered list \<Rightarrow> LegendGroupPosition list" where
  "positions_of_groups [] = []"
| "positions_of_groups (Group g # rs) = group_position g # positions_of_groups rs"
| "positions_of_groups (DividerSide # rs) = positions_of_groups rs"
| "positions_of_groups (BottomDualAxisContainer g1 g2 # rs) =
     group_position g1 # group_position g2 # positions_of_groups rs"

section \<open>Layout of the single-list legend variant\<close>

text \<open>
  The type \<^verbatim>\<open>ChartLegendType\<close> with the string of each value, on which the source calls
  \<^verbatim>\<open>startsWith\<close> and \<^verbatim>\<open>includes\<close>.
\<close>

datatype ChartLegendType = Bottom | Stacked | StackedTop | StackedBottom | BottomLeft | BottomRight

fun type_string :: "ChartLegendType \<Rightarrow> string" where
  "type_string Bottom = ''bottom''"
| "type_string Stacked = ''stacked''"
| "type_string StackedTop = ''stacked-top''"
| "type_string StackedBottom = ''stacked-bottom''"
| "type_string BottomLeft = ''bottom-left''"
| "type_string BottomRight = ''bottom-right''"

definition SHOULD_STACK_SIZE :: real where
  "SHOULD_STACK_SIZE = 400"

text \<open>
  The query passed to \<^verbatim>\<open>useContainerQuery\<close>, applied to the measured border-box width; its
  value is \<^verbatim>\<open>shouldStack\<close>.
\<close>

definition containerQuery :: "real \<Rightarrow> bool" where
  "containerQuery borderBoxWidth \<longleftrightarrow> borderBoxWidth \<le> SHOULD_STACK_SIZE"

definition filteredItems :: "ChartLegendType \<Rightarrow> LegendItem list \<Rightarrow> LegendItem list" where
  "filteredItems t items =
     (case t of
        Bottom \<Rightarrow> items
      | Stacked \<Rightarrow> items
      | BottomLeft \<Rightarrow> filter (\<lambda>item. \<not> oppositeAxis item) items
      | StackedTop \<Rightarrow> filter (\<lambda>item. \<not> oppositeAxis item) items
      | BottomRight \<Rightarrow> filter (\<lambda>item. oppositeAxis item) items
      | StackedBottom \<Rightarrow> filter (\<lambda>item. oppositeAxis item) items)"

definition isDual :: "ChartLegendType \<Rightarrow> bool" where
  "isDual t \<longleftrightarrow> CHR ''-'' \<in> set (type_string t)"

definition isBottom :: "ChartLegendType \<Rightarrow> bool" where
  "isBottom t \<longleftrightarrow> prefix ''bottom'' (type_string t)"

definition isStacked :: "ChartLegendType \<Rightarrow> bool \<Rightarrow> bool" where
  "isStacked t shouldStack \<longleftrightarrow> prefix ''stacked'' (type_string t) \<or> shouldStack"

definition isBottomRightNotStacked :: "ChartLegendType \<Rightarrow> bool \<Rightarrow> bool" where
  "isBottomRightNotStacked t shouldStack \<longleftrightarrow> t = BottomRight \<and> \<not> shouldStack"

text \<open>A dual-axis item list: "b" is on the opposite axis, "a" and "c" are not.\<close>

definition dual_items :: "LegendItem list" where
  "dual_items =
     [mk_item ''a'' True, (mk_item ''b'' True)\<lparr>oppositeAxis := True\<rparr>, mk_item ''c'' True]"

section \<open>Properties of visibility toggling\<close>

lemma selectItem_eq: "selectItem = onSelectItem"
  by (simp add: fun_eq_iff selectItem_def onSelectItem_def)

lemma toggleItem_eq: "toggleItem = onToggleItem"
  by (simp add: fun_eq_iff toggleItem_def onToggleItem_def)

lemma singleton_list:
  assumes "distinct xs" and "set xs = {x}"
  shows "xs = [x]"
proof (cases xs)
  case Nil
  with assms(2) show ?thesis by simp
next
  case (Cons a as)
  with assms(2) have a: "a = x" and sub: "set as \<subseteq> {x}" by auto
  from Cons assms(1) a have "x \<notin> set as" by simp
  with sub have "as = []" by (cases as) auto
  with Cons a show ?thesis by simp
qed

lemma visible_ids_sole:
  assumes "distinct (map item_id items)" and "x \<in> set items"
  shows "map item_id (filter visible items) = [item_id x] \<longleftrightarrow> sole_visible items x"
proof
  assume eq: "map item_id (filter visible items) = [item_id x]"
  then obtain y where fy: "filter visible items = [y]" and iy: "item_id y = item_id x"
    by (auto simp: map_eq_Cons_conv)
  from fy have "y \<in> set (filter visible items)" by simp
  then have y: "y \<in> set items" "visible y" by simp_all
  from assms(1) have "inj_on item_id (set items)"
    by (simp add: distinct_map)
  then have yx: "y = x"
    using iy y(1) assms(2) by (rule inj_onD)
  have "z = x" if "z \<in> set items" "visible z" for z
  proof -
    from that have "z \<in> set (filter visible items)" by simp
    then have "z \<in> set [y]" by (simp only: fy)
    then show ?thesis by (simp add: yx)
  qed
  moreover from y(2) yx have "visible x" by simp
  ultimately show "sole_visible items x"
    unfolding sole_visible_def using assms(2) by blast
next
  assume sv: "sole_visible items x"
  from assms(1) have d: "distinct (filter visible items)"
    by (simp add: distinct_map)
  from sv have "set (filter visible items) = {x}"
    unfolding sole_visible_def by auto
  with d have "filter visible items = [x]"
    by (rule singleton_list)
  then show "map item_id (filter visible items) = [item_id x]" by simp
qed

lemma one_elem: "(length xs = 1 \<and> xs ! 0 = a) \<longleftrightarrow> xs = [a]"
  by (cases xs) auto

text \<open>
  Claim C1. Item ids are unique (the data model). For every item list, "select" on an item
  \<open>x\<close> of the list emits \<open>onItemVisibilityChange\<close> with the list of all item ids when \<open>x\<close>
  is the sole visible item, and with the one-element list of the id of \<open>x\<close> in every other
  state; the highlight is cleared afterwards. Both legend variants do the same.
\<close>

theorem select_emits:
  assumes "distinct (map item_id items)" and "x \<in> set items"
  shows "onSelectItem items (item_id x) =
           [onItemVisibilityChange (if sole_visible items x then map item_id items else [item_id x]),
            onItemHighlightExit]
         \<and> selectItem items (item_id x) = onSelectItem items (item_id x)"
proof -
  have "(length (map item_id (filter visible items)) = 1
         \<and> map item_id (filter visible items) ! 0 = item_id x) \<longleftrightarrow> sole_visible items x"
    using visible_ids_sole [OF assms] by (simp only: one_elem)
  then show ?thesis
    by (simp add: onSelectItem_def selectItem_eq Let_def del: One_nat_def)
qed

theorem select_emits_witness:
  "distinct (map item_id scenario_items) \<and> mk_item ''b'' True \<in> set scenario_items
   \<and> onSelectItem scenario_items ''b'' = [onItemVisibilityChange [''b''], onItemHighlightExit]
   \<and> distinct (map item_id scenario_items_b) \<and> mk_item ''b'' True \<in> set scenario_items_b
   \<and> onSelectItem scenario_items_b ''b'' =
       [onItemVisibilityChange [''a'', ''b'', ''c''], onItemHighlightExit]"
  using select_emits [of scenario_items "mk_item ''b'' True"]
    select_emits [of scenario_items_b "mk_item ''b'' True"]
  by (simp add: scenario_items_def scenario_items_b_def mk_item_def sole_visible_def)

lemma visible_id_iff:
  assumes "distinct (map item_id items)" and "y \<in> set items"
  shows "item_id y \<in> set (visible_ids items) \<longleftrightarrow> visible y"
proof
  assume "item_id y \<in> set (visible_ids items)"
  then obtain z where z: "z \<in> set items" "visible z" "item_id z = item_id y"
    by (auto simp: visible_ids_def)
  from assms(1) have "inj_on item_id (set items)" by (simp add: distinct_map)
  then have "z = y" using z(3) z(1) assms(2) by (rule inj_onD)
  with z(2) show "visible y" by simp
next
  assume "visible y"
  with assms(2) show "item_id y \<in> set (visible_ids items)"
    by (auto simp: visible_ids_def)
qed

text \<open>
  Claim C2. Item ids are unique (the data model). For every item list, "toggle" on an item
  \<open>x\<close> of the list emits \<open>onItemVisibilityChange\<close> with the current visible-id list minus
  \<open>x\<close> when \<open>x\<close> is visible and plus \<open>x\<close> when it is not; every other item is a member of
  the emitted list exactly when it is visible now.
\<close>

theorem toggle_emits:
  assumes "distinct (map item_id items)" and "x \<in> set items"
  shows "onToggleItem items (item_id x) =
           [onItemVisibilityChange (toggled_ids items x), onItemHighlightExit]
         \<and> toggleItem items (item_id x) = onToggleItem items (item_id x)
         \<and> (\<forall>y \<in> set items. y \<noteq> x \<longrightarrow>
               (item_id y \<in> set (toggled_ids items x) \<longleftrightarrow> visible y))"
proof (intro conjI ballI impI)
  have "item_id x \<in> set (map item_id (filter visible items)) \<longleftrightarrow> visible x"
    using visible_id_iff [OF assms] by (simp only: visible_ids_def)
  then show "onToggleItem items (item_id x) =
      [onItemVisibilityChange (toggled_ids items x), onItemHighlightExit]"
    by (simp add: onToggleItem_def toggled_ids_def visible_ids_def Let_def removeAll_filter_not_eq
        eq_commute)
next
  show "toggleItem items (item_id x) = onToggleItem items (item_id x)"
    by (simp add: toggleItem_eq)
next
  fix y assume y: "y \<in> set items" "y \<noteq> x"
  from assms(1) have "inj_on item_id (set items)" by (simp add: distinct_map)
  with y assms(2) have ne: "item_id y \<noteq> item_id x"
    by (auto dest: inj_onD)
  then have "item_id y \<in> set (toggled_ids items x) \<longleftrightarrow> item_id y \<in> set (visible_ids items)"
    by (simp add: toggled_ids_def)
  then show "item_id y \<in> set (toggled_ids items x) \<longleftrightarrow> visible y"
    using visible_id_iff [OF assms(1) y(1)] by simp
qed

theorem toggle_emits_witness:
  "distinct (map item_id scenario_items) \<and> mk_item ''b'' True \<in> set scenario_items
   \<and> onToggleItem scenario_items ''b'' = [onItemVisibilityChange [''a''], onItemHighlightExit]
   \<and> mk_item ''c'' False \<in> set scenario_items
   \<and> onToggleItem scenario_items ''c'' =
       [onItemVisibilityChange [''a'', ''b'', ''c''], onItemHighlightExit]"
  using toggle_emits [of scenario_items "mk_item ''b'' True"]
    toggle_emits [of scenario_items "mk_item ''c'' False"]
  by (simp add: scenario_items_def mk_item_def toggled_ids_def visible_ids_def)

text \<open>
  Claim C10. When exactly one item \<open>x\<close> is visible, "toggle" on \<open>x\<close> emits
  \<open>onItemVisibilityChange\<close> with the empty list: the legend lets the user hide every series.
\<close>

theorem toggle_sole_visible_emits_empty:
  assumes "sole_visible items x"
  shows "onToggleItem items (item_id x) = [onItemVisibilityChange [], onItemHighlightExit]
         \<and> toggleItem items (item_id x) = [onItemVisibilityChange [], onItemHighlightExit]"
proof -
  from assms have "item_id x \<in> set (map item_id (filter visible items))"
    unfolding sole_visible_def by auto
  moreover from assms have "\<forall>y \<in> set (filter visible items). item_id y = item_id x"
    unfolding sole_visible_def by auto
  then have "filter (\<lambda>i. i \<noteq> item_id x) (map item_id (filter visible items)) = []"
    by (simp add: filter_empty_conv)
  ultimately show ?thesis
    by (simp add: onToggleItem_def toggleItem_eq Let_def)
qed

theorem toggle_sole_visible_emits_empty_witness:
  "sole_visible scenario_items_b (mk_item ''b'' True)
   \<and> onToggleItem scenario_items_b ''b'' = [onItemVisibilityChange [], onItemHighlightExit]"
  using toggle_sole_visible_emits_empty [of scenario_items_b "mk_item ''b'' True"]
  by (simp add: scenario_items_b_def mk_item_def sole_visible_def)

section \<open>Properties of DebouncedCall and of the tooltip control\<close>

lemma timeline_run_append:
  "timeline_run (es1 @ es2) s = timeline_run es2 (timeline_run es1 s)"
  by (induction es1 arbitrary: s) simp_all




lemma elapse_twice:
  "timeline_run [Elapse m, Elapse n] s = timeline_run [Elapse (m + n)] s"
  by (auto simp: timer_fires_def add.assoc split: option.splits prod.splits)

text \<open>
  Claim C6, as amended. For every DebouncedCall instance that is not locked when the calls
  are issued, and every pair of calls \<open>call(f1, d)\<close> then \<open>call(f2, d)\<close> issued before \<open>d\<close>
  elapses: after the second call the one pending action is \<open>f2\<close>, nothing has run yet, and
  once \<open>d\<close> more milliseconds have passed exactly one action has run, which is \<open>f2\<close>; the
  action of the first call never runs.
\<close>

theorem debounce_last_call_wins:
  assumes "\<not> isLocked (clock s) (debounced s)" and "e < d"
  shows "pending (debounced (timeline_run [Call f1 d, Elapse e, Call f2 d] s))
           = Some (clock s + e + d, f2)
         \<and> executed (timeline_run [Call f1 d, Elapse e, Call f2 d] s) = executed s
         \<and> executed (timeline_run [Call f1 d, Elapse e, Call f2 d, Elapse r] s)
           = executed s @ (if d \<le> r then [f2] else [])"
  using assms
  by (auto simp: call_def cancelPrevious_def timer_fires_def isLocked_def
      split: option.splits prod.splits)

theorem debounce_last_call_wins_witness:
  "\<not> isLocked (clock (new_timeline :: string timeline)) (debounced (new_timeline :: string timeline))
   \<and> (10 :: nat) < 50
   \<and> executed (timeline_run [Call ''first'' 50, Elapse 10, Call ''second'' 50, Elapse 50]
        new_timeline) = [''second'']"
  using debounce_last_call_wins [of new_timeline 10 50 "''first''" "''second''" 50]
  by (simp add: new_timeline_def newDebouncedCall_def isLocked_def)

text \<open>
  Claim C6 as stated fails on a locked instance: the two calls are dropped and no action
  runs at all.
\<close>

theorem debounce_locked_counterexample:
  "executed (timeline_run [Call ''first'' 50, Elapse 10, Call ''second'' 50, Elapse 50]
      (timeline_run [Lock 50] new_timeline)) = []
   \<and> executed (timeline_run [Call ''first'' 50, Elapse 10, Call ''second'' 50, Elapse 50]
      (timeline_run [Lock 50] new_timeline)) \<noteq> [''second'']"
  by (simp add: new_timeline_def newDebouncedCall_def lock_def call_def isLocked_def
      timer_fires_def)

lemma showTooltip_eq: "showTooltip = onShowTooltip"
  by (simp add: fun_eq_iff showTooltip_def onShowTooltip_def)

lemma hideTooltip_eq: "hideTooltip = onHideTooltip"
  by (simp add: fun_eq_iff hideTooltip_def onHideTooltip_def)


















section \<open>Properties of keyboard navigation and focus\<close>


lemma nth_renderedItems:
  "k < length items \<Longrightarrow> renderedItems items ! k = ItemButton k (item_id (items ! k))"
  by (simp add: renderedItems_def nth_enumerate_eq)


lemma fold_thisTriggerRef:
  "fst (fold (\<lambda>(index, item). thisTriggerRef index item (Some (ItemButton index (item_id item))))
          (enumerate n xs) regs) (int k)
   = (if n \<le> k \<and> k < n + length xs then Some (ItemButton k (item_id (xs ! (k - n))))
      else fst regs (int k))"
proof (induction xs arbitrary: n regs)
  case Nil
  show ?case by auto
next
  case (Cons x xs)
  show ?case
    by (simp add: Cons.IH) (auto simp: thisTriggerRef_def nth_Cons' Suc_diff_le)
qed

lemma mountItems_index:
  "k < length items \<Longrightarrow> fst (mountItems items regs) (int k) = Some (renderedItems items ! k)"
  by (simp add: mountItems_def fold_thisTriggerRef nth_renderedItems)

lemma focusElement_mounted:
  assumes "0 \<le> j" and "j < int (length items)"
  shows "focusElement (fst (mountItems items regs)) j = [Focus (renderedItems items ! nat j)]"
proof -
  from assms have "nat j < length items" by simp
  then have "fst (mountItems items regs) (int (nat j)) = Some (renderedItems items ! nat j)"
    by (rule mountItems_index)
  with assms(1) show ?thesis by (simp add: focusElement_def)
qed

lemma circleIndex_next:
  assumes "0 \<le> i" and "i < n"
  shows "circleIndex (i + 1) (0, n - 1) = (i + 1) mod n"
proof (cases "i + 1 < n")
  case True
  with assms show ?thesis by simp
next
  case False
  with assms have "i + 1 = n" by simp
  then show ?thesis using assms by simp
qed

lemma circleIndex_prev:
  assumes "0 \<le> i" and "i < n"
  shows "circleIndex (i - 1) (0, n - 1) = (i - 1) mod n"
proof (cases "i = 0")
  case True
  with assms have "(i - 1) mod n = n - 1"
    by (simp add: zmod_minus1)
  with True show ?thesis by simp
next
  case False
  with assms show ?thesis by simp
qed

text \<open>
  Claim C3. For every non-empty displayed item list of length \<open>n\<close>, mounted in the index
  registry, and every focus index \<open>i\<close> in \<open>[0, n-1]\<close>: arrow-right and arrow-down move the
  focus to the button at index \<open>(i+1) mod n\<close>, arrow-left and arrow-up to the one at
  \<open>(i-1) mod n\<close>; Home moves it to index 0 and End to index \<open>n-1\<close>, from any index. The
  default handling of the key is prevented each time.
\<close>

theorem arrow_keys_wrap:
  assumes "items \<noteq> []" and "0 \<le> i" and "i < int (length items)"
  shows "onKeyDown items i (fst (mountItems items regs)) KeyRight
           = [PreventDefault, Focus (renderedItems items ! nat ((i + 1) mod int (length items)))]
       \<and> onKeyDown items i (fst (mountItems items regs)) KeyDown
           = [PreventDefault, Focus (renderedItems items ! nat ((i + 1) mod int (length items)))]
       \<and> onKeyDown items i (fst (mountItems items regs)) KeyLeft
           = [PreventDefault, Focus (renderedItems items ! nat ((i - 1) mod int (length items)))]
       \<and> onKeyDown items i (fst (mountItems items regs)) KeyUp
           = [PreventDefault, Focus (renderedItems items ! nat ((i - 1) mod int (length items)))]
       \<and> onKeyDown items j (fst (mountItems items regs)) KeyHome
           = [PreventDefault, Focus (renderedItems items ! 0)]
       \<and> onKeyDown items j (fst (mountItems items regs)) KeyEnd
           = [PreventDefault, Focus (renderedItems items ! (length items - 1))]"
proof -
  let ?n = "int (length items)"
  from assms(1) have n: "0 < ?n" by simp
  have next_ok: "0 \<le> (i + 1) mod ?n" "(i + 1) mod ?n < ?n"
    using n by simp_all
  have prev_ok: "0 \<le> (i - 1) mod ?n" "(i - 1) mod ?n < ?n"
    using n by simp_all
  have f_next: "focusElement (fst (mountItems items regs)) (circleIndex (i + 1) (0, ?n - 1))
      = [Focus (renderedItems items ! nat ((i + 1) mod ?n))]"
    using focusElement_mounted [OF next_ok] circleIndex_next [OF assms(2,3)] by simp
  have f_prev: "focusElement (fst (mountItems items regs)) (circleIndex (i - 1) (0, ?n - 1))
      = [Focus (renderedItems items ! nat ((i - 1) mod ?n))]"
    using focusElement_mounted [OF prev_ok] circleIndex_prev [OF assms(2,3)] by simp
  have f_home: "focusElement (fst (mountItems items regs)) 0 = [Focus (renderedItems items ! 0)]"
    using focusElement_mounted [of 0 items regs] n by simp
  have "nat (?n - 1) = length items - 1" by simp
  then have f_end: "focusElement (fst (mountItems items regs)) (?n - 1)
      = [Focus (renderedItems items ! (length items - 1))]"
    using focusElement_mounted [of "?n - 1" items regs] n by simp
  show ?thesis
    unfolding onKeyDown_def Let_def
    using f_next f_prev f_home f_end by simp
qed

theorem arrow_keys_wrap_witness:
  "scenario_items \<noteq> [] \<and> (0::int) \<le> 2 \<and> (2::int) < int (length scenario_items)
   \<and> onKeyDown scenario_items 2 (fst (mountItems scenario_items (Map.empty, Map.empty))) KeyRight
       = [PreventDefault, Focus (ItemButton 0 ''a'')]
   \<and> onKeyDown scenario_items 0 (fst (mountItems scenario_items (Map.empty, Map.empty))) KeyLeft
       = [PreventDefault, Focus (ItemButton 2 ''c'')]
   \<and> onKeyDown scenario_items 1 (fst (mountItems scenario_items (Map.empty, Map.empty))) KeyEnd
       = [PreventDefault, Focus (ItemButton 2 ''c'')]"
  using arrow_keys_wrap [of scenario_items 2 "(Map.empty, Map.empty)" 1]
    arrow_keys_wrap [of scenario_items 0 "(Map.empty, Map.empty)" 1]
  by (simp add: scenario_items_def mk_item_def renderedItems_def)










section \<open>Properties of the Escape listener and of blur\<close>

text \<open>
  Claim C5 at its failing input. With an item whose id is the empty string, hovering that
  item sets \<open>tooltipItemId\<close> to the empty string: it is not null, the item is found and
  its tooltip content is rendered, yet the guard of the effect installs no document
  listener, so Escape neither requests a hide nor moves the focus to the registered
  button. For an item with a non-empty id the listener is installed, Escape requests the
  locked hide and the focus moves to the registered button.
\<close>

theorem empty_id_tooltip_ignores_escape:
  "tooltipItemId (tooltip_shown []) = Some []
   \<and> tooltipContent (\<lambda>legendItem. Some ''content'') [mk_item ''a'' True, mk_item [] True]
        (tooltipItemId (tooltip_shown [])) = Some ''content''
   \<and> installedListener (tooltipItemId (tooltip_shown [])) = None
   \<and> document_keydown KeyEscape (tooltip_shown []) = tooltip_shown []
   \<and> control (document_keydown KeyEscape (tooltip_shown []))
       \<noteq> onHideTooltip (now (tooltip_shown [])) True (control (tooltip_shown []))
   \<and> elementsByIdRef (tooltip_shown []) [] = Some (ItemButton 0 [])
   \<and> activeElement (document_keydown KeyEscape (tooltip_shown [])) = None
   \<and> installedListener (tooltipItemId (tooltip_shown ''a'')) = Some ''a''
   \<and> control (document_keydown KeyEscape (tooltip_shown ''a''))
       = onHideTooltip (now (tooltip_shown ''a'')) True (control (tooltip_shown ''a''))
   \<and> pending (control (document_keydown KeyEscape (tooltip_shown ''a'')))
       = Some (50, setTooltipItemId None)
   \<and> activeElement (document_keydown KeyEscape (tooltip_shown ''a'')) = Some (ItemButton 0 ''a'')"
  by (simp add: tooltip_shown_def installedListener_def document_keydown_def onHideTooltip_def
      onDocumentKeyDown_def tooltipContent_def tooltipTarget_def mk_item_def
      call_def isLocked_def lock_def cancelPrevious_def newDebouncedCall_def
      TOOLTIP_BLUR_DELAY_def Let_def)

text \<open>
  Claim C9 at its failing inputs. When a legend item loses the focus to another legend item,
  the ref of the tooltip is null and \<open>onBlur\<close> only updates the focus target: neither the
  debounced clear-highlight nor the tooltip hide is requested. The same holds, even with a
  tooltip element in the ref, when the blur event has no related target.
\<close>

theorem blur_between_items_does_nothing:
  "onBlur ChartLegend_tooltipRef_current (Some (ItemButton 1 ''b'')) = [UpdateFocusTarget]
   \<and> onBlur (Some (Dom (OtherElement 0) [])) None = [UpdateFocusTarget]"
  by (simp add: onBlur_def ChartLegend_tooltipRef_current_def)

lemma onBlur_calls:
  "onBlur ChartLegend_tooltipRef_current relatedTarget = [UpdateFocusTarget]"
  "onBlur tooltipRef_current None = [UpdateFocusTarget]"
  "onBlur (Some tooltip) (Some target) =
     (if contains tooltip target then [UpdateFocusTarget]
      else [UpdateFocusTarget, HighlightControlCall onItemHighlightExit HIGHLIGHT_LOST_DELAY,
            OnHideTooltip False])"
  by (simp_all add: onBlur_def ChartLegend_tooltipRef_current_def clearHighlight_def
      split: option.splits)

section \<open>Properties of the layout\<close>

text \<open>
  Claim C8. For every measured container width strictly below 400 px: in the grouped legend,
  for every \<open>type\<close> and \<open>position\<close> whose groups would otherwise be placed side by side
  in a row, the groups are rendered stacked (two side groups with a divider), with the same
  item lists in the same order, and no narrow layout is side by side; in the single-list
  legend variant every type is stacked.
\<close>

theorem narrow_container_stacks:
  assumes "width < 400"
  shows "(side_by_side (ChartLegend_groups position False title oppositeTitle
              (fst (partitionItems axes items)) (snd (partitionItems axes items))) \<longrightarrow>
            ChartLegend_groups position (onResize [Some width] previous) title oppositeTitle
              (fst (partitionItems axes items)) (snd (partitionItems axes items))
            = [Group \<lparr>group_position = GroupSide, group_title = title,
                      group_items = fst (partitionItems axes items),
                      group_ariaLabel = ''Default legend'', group_scrollsRoot = True\<rparr>,
               DividerSide,
               Group \<lparr>group_position = GroupSide, group_title = oppositeTitle,
                      group_items = snd (partitionItems axes items),
                      group_ariaLabel = ''Opposite legend'', group_scrollsRoot = True\<rparr>]
            \<and> items_of_groups (ChartLegend_groups position (onResize [Some width] previous)
                  title oppositeTitle (fst (partitionItems axes items))
                  (snd (partitionItems axes items)))
              = items_of_groups (ChartLegend_groups position False title oppositeTitle
                  (fst (partitionItems axes items)) (snd (partitionItems axes items))))
       \<and> \<not> side_by_side (ChartLegend_groups position (onResize [Some width] previous) title
              oppositeTitle (fst (partitionItems axes items)) (snd (partitionItems axes items)))
       \<and> isStacked t (containerQuery width)"
proof -
  from assms have r: "onResize [Some width] previous = True"
    by (simp add: onResize_def)
  from assms have q: "containerQuery width"
    by (simp add: containerQuery_def SHOULD_STACK_SIZE_def)
  let ?d = "fst (partitionItems axes items)" and ?o = "snd (partitionItems axes items)"
  have a: "side_by_side (ChartLegend_groups position False title oppositeTitle ?d ?o) \<longleftrightarrow>
      position = PositionBottom \<and> ?o \<noteq> []"
    by (simp add: ChartLegend_groups_def sideGroups_def)
  have b: "\<not> side_by_side (ChartLegend_groups position True title oppositeTitle ?d ?o)"
    by (simp add: ChartLegend_groups_def sideGroups_def)
  show ?thesis
    unfolding r a using b q
    by (simp add: ChartLegend_groups_def sideGroups_def isStacked_def)
qed

theorem narrow_container_stacks_witness:
  "(300 :: real) < 400
   \<and> ChartLegend_groups PositionBottom (onResize [Some 500] False) None None
        (fst (partitionItems TypeDual dual_items)) (snd (partitionItems TypeDual dual_items))
      = [BottomDualAxisContainer
           \<lparr>group_position = GroupBottomDefault, group_title = None,
            group_items = [mk_item ''a'' True, mk_item ''c'' True],
            group_ariaLabel = ''Primary legend'', group_scrollsRoot = False\<rparr>
           \<lparr>group_position = GroupBottomOpposite, group_title = None,
            group_items = [(mk_item ''b'' True)\<lparr>oppositeAxis := True\<rparr>],
            group_ariaLabel = ''Opposite legend'', group_scrollsRoot = False\<rparr>]
   \<and> side_by_side (ChartLegend_groups PositionBottom False None None
        (fst (partitionItems TypeDual dual_items)) (snd (partitionItems TypeDual dual_items)))
   \<and> items_of_groups (ChartLegend_groups PositionBottom (onResize [Some 300] False) None None
        (fst (partitionItems TypeDual dual_items)) (snd (partitionItems TypeDual dual_items)))
      = [[mk_item ''a'' True, mk_item ''c'' True], [(mk_item ''b'' True)\<lparr>oppositeAxis := True\<rparr>]]
   \<and> positions_of_groups (ChartLegend_groups PositionBottom (onResize [Some 300] False) None None
        (fst (partitionItems TypeDual dual_items)) (snd (partitionItems TypeDual dual_items)))
      = [GroupSide, GroupSide]
   \<and> \<not> isStacked BottomRight (containerQuery 500)
   \<and> isStacked BottomRight (containerQuery 300)
   \<and> filteredItems BottomRight dual_items = [(mk_item ''b'' True)\<lparr>oppositeAxis := True\<rparr>]"
  using narrow_container_stacks [of 300 PositionBottom None None TypeDual dual_items False BottomRight]
  by (simp add: dual_items_def mk_item_def partitionItems_def onResize_def
      ChartLegend_groups_def sideGroups_def isStacked_def containerQuery_def
      SHOULD_STACK_SIZE_def filteredItems_def)

end
